theory Spec2Isabelle
  imports Main "HOL-Library.Word"
begin

section \<open>Python values, exceptions and string operations\<close>

text \<open>
  The proxy is one Python module, \<^verbatim>\<open>fastapi_nvidia_nim_proxy.py\<close>. Its functions are
  embedded here one by one. A value produced by \<^verbatim>\<open>json.loads\<close> is a tree: \<^verbatim>\<open>None\<close>,
  a \<^verbatim>\<open>bool\<close>, an unbounded \<^verbatim>\<open>int\<close>, a \<^verbatim>\<open>float\<close> (its IEEE 754 binary64 bit pattern),
  a \<^verbatim>\<open>str\<close>, a \<^verbatim>\<open>list\<close> or a \<^verbatim>\<open>dict\<close> with string keys (kept in insertion order).
\<close>

datatype json =
    JNull
  | JBool bool
  | JInt int
  | JFloat "64 word"
  | JStr string
  | JArr "json list"
  | JObj "(string \<times> json) list"

text \<open>
  Exceptions are values. \<open>HTTPException\<close> carries \<^verbatim>\<open>status_code\<close> and \<^verbatim>\<open>detail\<close>; it is a
  subclass of \<^verbatim>\<open>Exception\<close>, as are all the others. \<open>OtherError\<close> stands for every exception
  not listed (a transport failure of httpx, ...), identified by a description.
\<close>

datatype py_exc =
    JSONDecodeError
  | AttributeError
  | IndexError
  | ValueError
  | UnicodeDecodeError
  | RuntimeError string
  | HTTPException int string
  | OtherError string

text \<open>Truth value testing, as \<^verbatim>\<open>if x:\<close> performs it.\<close>

fun truthy :: "json \<Rightarrow> bool" where
  "truthy JNull = False"
| "truthy (JBool b) = b"
| "truthy (JInt i) = (i \<noteq> 0)"
| "truthy (JFloat w) = (take_bit 63 w \<noteq> 0)"
| "truthy (JStr s) = (s \<noteq> [])"
| "truthy (JArr xs) = (xs \<noteq> [])"
| "truthy (JObj kvs) = (kvs \<noteq> [])"

text \<open>\<^verbatim>\<open>s.startswith(p)\<close>.\<close>

fun startswith :: "string \<Rightarrow> string \<Rightarrow> bool" where
  "startswith s [] = True"
| "startswith [] (p # ps) = False"
| "startswith (c # cs) (p # ps) = (c = p \<and> startswith cs ps)"

text \<open>
  \<^verbatim>\<open>s.split(sep)\<close>: the text is cut at every occurrence of \<open>sep\<close>, found from left to
  right without overlap; an empty separator raises \<^verbatim>\<open>ValueError\<close>. \<open>split_from sep seg s\<close>
  scans \<open>s\<close> with \<open>seg\<close> the segment read so far.
\<close>

function split_from :: "string \<Rightarrow> string \<Rightarrow> string \<Rightarrow> string list" where
  "split_from sep seg [] = [seg]"
| "split_from sep seg (c # cs) =
     (if sep \<noteq> [] \<and> startswith (c # cs) sep
      then seg # split_from sep [] (drop (length sep - 1) cs)
      else split_from sep (seg @ [c]) cs)"
  by pat_completeness auto
termination
  by (relation "measure (\<lambda>(sep, seg, s). length s)") auto

definition py_split :: "string \<Rightarrow> string \<Rightarrow> py_exc + string list" where
  "py_split s sep = (if sep = [] then Inl ValueError else Inr (split_from sep [] s))"

text \<open>\<^verbatim>\<open>xs[i]\<close> for an index \<open>i \<ge> 0\<close>: out of range raises \<^verbatim>\<open>IndexError\<close>.\<close>

definition py_index :: "'a list \<Rightarrow> nat \<Rightarrow> py_exc + 'a" where
  "py_index xs i = (if i < length xs then Inr (xs ! i) else Inl IndexError)"

text \<open>\<^verbatim>\<open>d.get(key, default)\<close>: only a \<^verbatim>\<open>dict\<close> has the method.\<close>

fun py_get :: "json \<Rightarrow> string \<Rightarrow> json \<Rightarrow> py_exc + json" where
  "py_get (JObj kvs) key dflt = Inr (case map_of kvs key of None \<Rightarrow> dflt | Some v \<Rightarrow> v)"
| "py_get _ key dflt = Inl AttributeError"

section \<open>Configuration, requests and responses\<close>

text \<open>The three module-level constants read from the environment at start-up.\<close>

record config =
  NVIDIA_NIM_BASE_URL :: string
  NVIDIA_NIM_API_KEY :: string
  PROXY_API_KEY :: string

text \<open>
  An inbound request, as far as the module looks at it: the method and \<^verbatim>\<open>request.url.path\<close>
  (used by the routing), \<^verbatim>\<open>request.headers.get("authorization")\<close>, and what
  \<^verbatim>\<open>await request.json()\<close> returns or raises: \<^verbatim>\<open>json.JSONDecodeError\<close> for a text that is
  not JSON, \<^verbatim>\<open>UnicodeDecodeError\<close> for a body that is not text in UTF-8, \<^verbatim>\<open>ValueError\<close> for
  an integer literal beyond the interpreter's digit limit.
\<close>

record request =
  http_method :: string
  path :: string
  authorization :: "string option"
  request_json :: "py_exc + json"

text \<open>
  A response of the proxy. A body is one JSON document, a plain text, or a stream: the
  chunks that were sent, and the exception that cut the stream short, if any.
\<close>

datatype body =
    Json_body json
  | Text_body string
  | Stream_body "string list" "py_exc option"

record response =
  status :: int
  media_type :: string
  headers :: "(string \<times> string) list"
  body :: body

definition JSONResponse :: "int \<Rightarrow> json \<Rightarrow> response" where
  "JSONResponse code content =
     \<lparr>status = code, media_type = ''application/json'', headers = [], body = Json_body content\<rparr>"

text \<open>
  One call to the backend through httpx: the client method used, the URL, the request
  headers, the JSON payload and the timeout in seconds.
\<close>

datatype client_method = Client_get | Client_post | Client_stream

record backend_call =
  client_method :: client_method
  url :: string
  call_headers :: "(string \<times> string) list"
  payload :: "json option"
  timeout :: nat

text \<open>What serving a request produced: the response, and the backend calls made for it.\<close>

record outcome =
  resp :: response
  calls :: "backend_call list"

section \<open>The credential gate\<close>

text \<open>
  \<^verbatim>\<open>authenticate_request\<close>: a missing or empty header, or one that does not start with
  \<^verbatim>\<open>"Bearer "\<close>, is refused; otherwise the token is element 1 of
  \<^verbatim>\<open>auth_header.split("Bearer ")\<close> and is compared with \<^verbatim>\<open>PROXY_API_KEY\<close>.
\<close>

definition authenticate_request :: "config \<Rightarrow> request \<Rightarrow> py_exc + bool" where
  "authenticate_request cfg request =
     (case authorization request of
        None \<Rightarrow> Inr False
      | Some auth_header \<Rightarrow>
          if auth_header = [] \<or> \<not> startswith auth_header ''Bearer '' then Inr False
          else (case py_split auth_header ''Bearer '' of
                  Inl e \<Rightarrow> Inl e
                | Inr parts \<Rightarrow>
                    (case py_index parts 1 of
                       Inl e \<Rightarrow> Inl e
                     | Inr token \<Rightarrow> Inr (token = PROXY_API_KEY cfg))))"

definition unauthenticated_paths :: "string list" where
  "unauthenticated_paths = [''/'', ''/health'', ''/docs'', ''/openapi.json'']"

definition invalid_api_key :: json where
  "invalid_api_key =
     JObj [(''error'', JObj [(''message'', JStr ''Invalid API key''),
                             (''type'', JStr ''invalid_request_error'')])]"

text \<open>
  \<^verbatim>\<open>auth_middleware\<close>: \<open>call_next\<close> is the rest of the application. An exception raised
  by \<^verbatim>\<open>authenticate_request\<close> would leave the middleware uncaught.
\<close>

definition auth_middleware ::
  "config \<Rightarrow> request \<Rightarrow> (request \<Rightarrow> py_exc + outcome) \<Rightarrow> py_exc + outcome" where
  "auth_middleware cfg request call_next =
     (if path request \<in> set unauthenticated_paths then call_next request
      else (case authenticate_request cfg request of
              Inl e \<Rightarrow> Inl e
            | Inr ok \<Rightarrow>
                if \<not> ok then Inr \<lparr>resp = JSONResponse 401 invalid_api_key, calls = []\<rparr>
                else call_next request))"

section \<open>The translators\<close>

text \<open>
  \<^verbatim>\<open>translate_request\<close> and \<^verbatim>\<open>translate_response\<close> return \<^verbatim>\<open>x.copy()\<close>. What a copy is
  depends on object identity, so the two functions are embedded over a store: a list of
  objects, an object's address being its index. The store tracks the identity of the
  document handed to a translator; the values nested in it are kept by value.

  \<^verbatim>\<open>dict.copy()\<close> and \<^verbatim>\<open>list.copy()\<close> allocate a new object with the same items. The other
  JSON values (\<^verbatim>\<open>None\<close>, \<^verbatim>\<open>bool\<close>, \<^verbatim>\<open>int\<close>, \<^verbatim>\<open>float\<close>, \<^verbatim>\<open>str\<close>) have no \<^verbatim>\<open>copy\<close>
  attribute. An address outside the store denotes no object; no Python reference is
  dangling, and the model answers such an address with an error of its own.
\<close>

type_synonym addr = nat
type_synonym store = "json list"

definition py_copy :: "store \<Rightarrow> addr \<Rightarrow> py_exc + (addr \<times> store)" where
  "py_copy st a =
     (if a < length st then
        (case st ! a of
           JObj kvs \<Rightarrow> Inr (length st, st @ [JObj kvs])
         | JArr xs \<Rightarrow> Inr (length st, st @ [JArr xs])
         | _ \<Rightarrow> Inl AttributeError)
      else Inl (OtherError ''no object at this address''))"

text \<open>The values that have a \<^verbatim>\<open>copy\<close> method: \<^verbatim>\<open>dict\<close> and \<^verbatim>\<open>list\<close>.\<close>

fun copyable :: "json \<Rightarrow> bool" where
  "copyable (JObj kvs) = True"
| "copyable (JArr xs) = True"
| "copyable _ = False"

text \<open>
  The branch \<^verbatim>\<open>if "model" in nim_request: pass\<close> of \<^verbatim>\<open>translate_request\<close> does nothing
  and the comments that follow are placeholders: both bodies are the copy and the return.
\<close>

definition translate_request :: "store \<Rightarrow> addr \<Rightarrow> py_exc + (addr \<times> store)" where
  "translate_request st openai_request = py_copy st openai_request"

definition translate_response :: "store \<Rightarrow> addr \<Rightarrow> py_exc + (addr \<times> store)" where
  "translate_response st nim_response = py_copy st nim_response"

text \<open>
  A route handler calls a translator on a document it has just parsed and goes on with the
  value of the object returned: \<open>translated f doc\<close> runs the translator \<open>f\<close> on a store
  that holds \<open>doc\<close> and reads the returned object.
\<close>

definition translated ::
  "(store \<Rightarrow> addr \<Rightarrow> py_exc + (addr \<times> store)) \<Rightarrow> json \<Rightarrow> py_exc + json" where
  "translated f doc =
     (case f [doc] 0 of
        Inl e \<Rightarrow> Inl e
      | Inr (a, st) \<Rightarrow> if a < length st then Inr (st ! a) else Inl (OtherError ''no object at this address''))"

section \<open>The backend, seen through httpx\<close>

text \<open>
  A backend response is described by what the accessors used in the module give:
  \<^verbatim>\<open>response.status_code\<close>, \<^verbatim>\<open>response.text\<close>, what \<^verbatim>\<open>response.json()\<close> returns or raises,
  what \<^verbatim>\<open>(await response.aread()).decode()\<close> returns or raises, the lines that
  \<^verbatim>\<open>response.aiter_lines()\<close> yields, and the exception that ends the iteration early, if
  any.
\<close>

record backend_response =
  status_code :: int
  response_text :: string
  json_result :: "py_exc + json"
  aread_decoded :: "py_exc + string"
  lines :: "string list"
  lines_exc :: "py_exc option"

text \<open>
  The environment of the module: the backend (a call either raises, for a transport
  failure, or gives a response), and two library functions whose results are carried into
  responses as text, \<^verbatim>\<open>str(e)\<close> for an exception and \<^verbatim>\<open>json.dumps\<close>. \<open>encode_exc\<close> is
  the exception, if any, that FastAPI's encoding of a returned value raises for a reason
  other than the one \<open>finite_numbers\<close> below describes (a nesting too deep for the encoder,
  a string that UTF-8 cannot encode). The last field is FastAPI's answer to a request that none of the module's routes takes: the
  pages at \<^verbatim>\<open>/docs\<close> and \<^verbatim>\<open>/openapi.json\<close>, and its replies to an unknown path or to
  a known path under another method.
\<close>

record env =
  backend :: "backend_call \<Rightarrow> py_exc + backend_response"
  exc_str :: "py_exc \<Rightarrow> string"
  json_dumps :: "json \<Rightarrow> string"
  encode_exc :: "json \<Rightarrow> py_exc option"
  fastapi_builtin :: "request \<Rightarrow> response"

text \<open>
  The client. \<^verbatim>\<open>async with httpx.AsyncClient() as client\<close> opens a client and closes it
  when the block is left, by whatever way. A request sent through an open client reaches
  the backend. A request sent through a closed client raises \<^verbatim>\<open>RuntimeError\<close> and nothing is
  sent. The result is what the call gives and the calls that reached the backend.
\<close>

datatype client_state = Client_open | Client_closed

definition client_send ::
  "env \<Rightarrow> client_state \<Rightarrow> backend_call \<Rightarrow> (py_exc + backend_response) \<times> backend_call list" where
  "client_send e client c =
     (case client of
        Client_open \<Rightarrow> (backend e c, [c])
      | Client_closed \<Rightarrow>
          (Inl (RuntimeError ''Cannot send a request, as the client has been closed.''), []))"

text \<open>
  The headers a handler prepares: \<^verbatim>\<open>Content-Type\<close> for the two generation endpoints,
  and \<^verbatim>\<open>Authorization\<close> when \<^verbatim>\<open>NVIDIA_NIM_API_KEY\<close> is not empty.
\<close>

definition nim_headers :: "config \<Rightarrow> (string \<times> string) list \<Rightarrow> (string \<times> string) list" where
  "nim_headers cfg hs =
     (if NVIDIA_NIM_API_KEY cfg \<noteq> []
      then hs @ [(''Authorization'', ''Bearer '' @ NVIDIA_NIM_API_KEY cfg)]
      else hs)"

section \<open>Route handlers\<close>

text \<open>What a handler returns: a value that FastAPI encodes as JSON, or a response object.\<close>

datatype returned =
    Value json
  | Response response

definition root :: "py_exc + returned" where
  "root = Inr (Value (JObj [(''message'', JStr ''NVIDIA NIM OpenAI Proxy Server''),
                            (''status'', JStr ''running'')]))"

definition health :: "py_exc + returned" where
  "health = Inr (Value (JObj [(''status'', JStr ''healthy'')]))"

text \<open>
  \<^verbatim>\<open>list_models\<close>. The whole body is inside \<^verbatim>\<open>try\<close>, and the request is sent inside the
  \<^verbatim>\<open>async with\<close> block, through the open client; \<^verbatim>\<open>except Exception\<close> turns every
  exception raised there, the \<^verbatim>\<open>HTTPException\<close> of the \<^verbatim>\<open>else\<close> branch included, into
  \<^verbatim>\<open>HTTPException(500, "Failed to fetch models")\<close>.
\<close>

definition list_models_call :: "config \<Rightarrow> backend_call" where
  "list_models_call cfg =
     \<lparr>client_method = Client_get, url = NVIDIA_NIM_BASE_URL cfg @ ''/v1/models'',
      call_headers = nim_headers cfg [], payload = None, timeout = 30\<rparr>"

definition list_models_try :: "config \<Rightarrow> env \<Rightarrow> (py_exc + returned) \<times> backend_call list" where
  "list_models_try cfg e =
     (case client_send e Client_open (list_models_call cfg) of
        (Inl ex, cs) \<Rightarrow> (Inl ex, cs)
      | (Inr response, cs) \<Rightarrow>
          (if status_code response = 200 then
             (case json_result response of Inl ex \<Rightarrow> Inl ex | Inr j \<Rightarrow> Inr (Value j))
           else Inl (HTTPException (status_code response) (response_text response)),
           cs))"

definition list_models :: "config \<Rightarrow> env \<Rightarrow> (py_exc + returned) \<times> backend_call list" where
  "list_models cfg e =
     (case list_models_try cfg e of
        (Inl ex, cs) \<Rightarrow> (Inl (HTTPException 500 ''Failed to fetch models''), cs)
      | (Inr r, cs) \<Rightarrow> (Inr r, cs))"

text \<open>
  The streaming loop, \<^verbatim>\<open>async for chunk in response.aiter_lines(): if chunk: yield ...\<close>.
  The line break inside the f-string is the newline character of the yielded text.
\<close>

fun forward_lines :: "string list \<Rightarrow> string list" where
  "forward_lines [] = []"
| "forward_lines (chunk # rest) =
     (if chunk \<noteq> [] then (chunk @ [CHR 0x0A]) # forward_lines rest else forward_lines rest)"

text \<open>The one event that \<^verbatim>\<open>generate_stream\<close> yields for a backend status other than 200.\<close>

definition error_event :: "env \<Rightarrow> string \<Rightarrow> string" where
  "error_event e error_text =
     ''data: '' @
     json_dumps e (JObj [(''error'', JObj [(''message'', JStr error_text),
                                           (''type'', JStr ''api_error'')])]) @
     [CHR 0x0A, CHR 0x0A]"

definition StreamingResponse :: "body \<Rightarrow> string \<Rightarrow> (string \<times> string) list \<Rightarrow> response" where
  "StreamingResponse content mt hs = \<lparr>status = 200, media_type = mt, headers = hs, body = content\<rparr>"

subsection \<open>\<^verbatim>\<open>POST /v1/chat/completions\<close>\<close>

text \<open>
  \<^verbatim>\<open>generate_stream\<close> is a generator function defined inside the \<^verbatim>\<open>async with\<close> block: the
  call \<^verbatim>\<open>generate_stream()\<close> only creates the generator, and its body runs when the
  \<^verbatim>\<open>StreamingResponse\<close> is sent. The parameter \<open>client\<close> is the state, at that moment, of the
  client it refers to. The result is the stream body and the calls that reached the
  backend.
\<close>

definition chat_completions_stream_call ::
  "config \<Rightarrow> json \<Rightarrow> (string \<times> string) list \<Rightarrow> backend_call" where
  "chat_completions_stream_call cfg nim_request hs =
     \<lparr>client_method = Client_stream, url = NVIDIA_NIM_BASE_URL cfg @ ''/v1/chat/completions'',
      call_headers = hs, payload = Some nim_request, timeout = 60\<rparr>"

definition chat_completions_generate_stream ::
  "config \<Rightarrow> env \<Rightarrow> client_state \<Rightarrow> json \<Rightarrow> (string \<times> string) list \<Rightarrow>
   body \<times> backend_call list" where
  "chat_completions_generate_stream cfg e client nim_request hs =
     (case client_send e client (chat_completions_stream_call cfg nim_request hs) of
        (Inl ex, cs) \<Rightarrow> (Stream_body [] (Some ex), cs)
      | (Inr response, cs) \<Rightarrow>
          (if status_code response \<noteq> 200 then
             (case aread_decoded response of
                Inl ex \<Rightarrow> Stream_body [] (Some ex)
              | Inr error_text \<Rightarrow> Stream_body [error_event e error_text] None)
           else Stream_body (forward_lines (lines response)) (lines_exc response),
           cs))"

definition chat_completions_post_call ::
  "config \<Rightarrow> json \<Rightarrow> (string \<times> string) list \<Rightarrow> backend_call" where
  "chat_completions_post_call cfg nim_request hs =
     \<lparr>client_method = Client_post, url = NVIDIA_NIM_BASE_URL cfg @ ''/v1/chat/completions'',
      call_headers = hs, payload = Some nim_request, timeout = 60\<rparr>"

text \<open>
  The body of the \<^verbatim>\<open>try\<close> statement: what it returns or raises, and the calls made. The
  \<^verbatim>\<open>POST\<close> of the non-streaming branch is awaited inside the \<^verbatim>\<open>async with\<close> block, through
  the open client. The streaming branch returns the \<^verbatim>\<open>StreamingResponse\<close> from inside the
  block, which closes the client; the generator runs after that, outside the \<^verbatim>\<open>try\<close>.
\<close>

definition chat_completions_try ::
  "config \<Rightarrow> env \<Rightarrow> request \<Rightarrow> (py_exc + returned) \<times> backend_call list" where
  "chat_completions_try cfg e request =
     (case request_json request of
        Inl ex \<Rightarrow> (Inl ex, [])
      | Inr request_data \<Rightarrow>
          (case translated translate_request request_data of
             Inl ex \<Rightarrow> (Inl ex, [])
           | Inr nim_request \<Rightarrow>
               (case py_get request_data ''stream'' (JBool False) of
                  Inl ex \<Rightarrow> (Inl ex, [])
                | Inr is_stream \<Rightarrow>
                    if truthy is_stream then
                      (case chat_completions_generate_stream cfg e Client_closed nim_request
                              (nim_headers cfg [(''Content-Type'', ''application/json'')]) of
                         (content, cs) \<Rightarrow>
                           (Inr (Response (StreamingResponse content ''text/plain''
                                   [(''Cache-Control'', ''no-cache''), (''Connection'', ''keep-alive'')])),
                            cs))
                    else
                      (case client_send e Client_open
                              (chat_completions_post_call cfg nim_request
                                 (nim_headers cfg [(''Content-Type'', ''application/json'')])) of
                         (Inl ex, cs) \<Rightarrow> (Inl ex, cs)
                       | (Inr response, cs) \<Rightarrow>
                           (if status_code response = 200 then
                              (case json_result response of
                                 Inl ex \<Rightarrow> Inl ex
                               | Inr nim_response \<Rightarrow>
                                   (case translated translate_response nim_response of
                                      Inl ex \<Rightarrow> Inl ex
                                    | Inr openai_response \<Rightarrow> Inr (Value openai_response)))
                            else Inl (HTTPException (status_code response) (response_text response)),
                            cs)))))"

text \<open>
  The \<^verbatim>\<open>except\<close> clauses, in their order: \<^verbatim>\<open>json.JSONDecodeError\<close> first, then
  \<^verbatim>\<open>Exception\<close>, which every other exception raised in the body matches.
\<close>

definition chat_completions ::
  "config \<Rightarrow> env \<Rightarrow> request \<Rightarrow> (py_exc + returned) \<times> backend_call list" where
  "chat_completions cfg e request =
     (case chat_completions_try cfg e request of
        (Inl ex, cs) \<Rightarrow>
          (if ex = JSONDecodeError then Inl (HTTPException 400 ''Invalid JSON in request body'')
           else Inl (HTTPException 500 (exc_str e ex)), cs)
      | (Inr r, cs) \<Rightarrow> (Inr r, cs))"

subsection \<open>\<^verbatim>\<open>POST /v1/completions\<close>\<close>

definition completions_stream_call ::
  "config \<Rightarrow> json \<Rightarrow> (string \<times> string) list \<Rightarrow> backend_call" where
  "completions_stream_call cfg nim_request hs =
     \<lparr>client_method = Client_stream, url = NVIDIA_NIM_BASE_URL cfg @ ''/v1/completions'',
      call_headers = hs, payload = Some nim_request, timeout = 60\<rparr>"

definition completions_generate_stream ::
  "config \<Rightarrow> env \<Rightarrow> client_state \<Rightarrow> json \<Rightarrow> (string \<times> string) list \<Rightarrow>
   body \<times> backend_call list" where
  "completions_generate_stream cfg e client nim_request hs =
     (case client_send e client (completions_stream_call cfg nim_request hs) of
        (Inl ex, cs) \<Rightarrow> (Stream_body [] (Some ex), cs)
      | (Inr response, cs) \<Rightarrow>
          (if status_code response \<noteq> 200 then
             (case aread_decoded response of
                Inl ex \<Rightarrow> Stream_body [] (Some ex)
              | Inr error_text \<Rightarrow> Stream_body [error_event e error_text] None)
           else Stream_body (forward_lines (lines response)) (lines_exc response),
           cs))"

definition completions_post_call ::
  "config \<Rightarrow> json \<Rightarrow> (string \<times> string) list \<Rightarrow> backend_call" where
  "completions_post_call cfg nim_request hs =
     \<lparr>client_method = Client_post, url = NVIDIA_NIM_BASE_URL cfg @ ''/v1/completions'',
      call_headers = hs, payload = Some nim_request, timeout = 60\<rparr>"

definition completions_try ::
  "config \<Rightarrow> env \<Rightarrow> request \<Rightarrow> (py_exc + returned) \<times> backend_call list" where
  "completions_try cfg e request =
     (case request_json request of
        Inl ex \<Rightarrow> (Inl ex, [])
      | Inr request_data \<Rightarrow>
          (case translated translate_request request_data of
             Inl ex \<Rightarrow> (Inl ex, [])
           | Inr nim_request \<Rightarrow>
               (case py_get request_data ''stream'' (JBool False) of
                  Inl ex \<Rightarrow> (Inl ex, [])
                | Inr is_stream \<Rightarrow>
                    if truthy is_stream then
                      (case completions_generate_stream cfg e Client_closed nim_request
                              (nim_headers cfg [(''Content-Type'', ''application/json'')]) of
                         (content, cs) \<Rightarrow>
                           (Inr (Response (StreamingResponse content ''text/plain''
                                   [(''Cache-Control'', ''no-cache''), (''Connection'', ''keep-alive'')])),
                            cs))
                    else
                      (case client_send e Client_open
                              (completions_post_call cfg nim_request
                                 (nim_headers cfg [(''Content-Type'', ''application/json'')])) of
                         (Inl ex, cs) \<Rightarrow> (Inl ex, cs)
                       | (Inr response, cs) \<Rightarrow>
                           (if status_code response = 200 then
                              (case json_result response of
                                 Inl ex \<Rightarrow> Inl ex
                               | Inr nim_response \<Rightarrow>
                                   (case translated translate_response nim_response of
                                      Inl ex \<Rightarrow> Inl ex
                                    | Inr openai_response \<Rightarrow> Inr (Value openai_response)))
                            else Inl (HTTPException (status_code response) (response_text response)),
                            cs)))))"

definition completions ::
  "config \<Rightarrow> env \<Rightarrow> request \<Rightarrow> (py_exc + returned) \<times> backend_call list" where
  "completions cfg e request =
     (case completions_try cfg e request of
        (Inl ex, cs) \<Rightarrow>
          (if ex = JSONDecodeError then Inl (HTTPException 400 ''Invalid JSON in request body'')
           else Inl (HTTPException 500 (exc_str e ex)), cs)
      | (Inr r, cs) \<Rightarrow> (Inr r, cs))"

section \<open>The application\<close>

text \<open>
  FastAPI renders a returned value with \<^verbatim>\<open>json.dumps(..., allow_nan=False)\<close>, which raises
  \<^verbatim>\<open>ValueError\<close> for a float that is infinite or not a number: in binary64, one whose eleven
  exponent bits are all set. \<^verbatim>\<open>json.loads\<close> gives such floats for \<^verbatim>\<open>1e999\<close>, \<^verbatim>\<open>NaN\<close> and
  \<^verbatim>\<open>Infinity\<close>.
\<close>

fun finite_numbers :: "json \<Rightarrow> bool" where
  "finite_numbers (JFloat w) = (take_bit 11 (drop_bit 52 w) \<noteq> (2047 :: 64 word))"
| "finite_numbers (JArr xs) = list_all finite_numbers xs"
| "finite_numbers (JObj kvs) = list_all (\<lambda>kv. finite_numbers (snd kv)) kvs"
| "finite_numbers _ = True"

definition render_exc :: "env \<Rightarrow> json \<Rightarrow> py_exc option" where
  "render_exc e j = (if \<not> finite_numbers j then Some ValueError else encode_exc e j)"

text \<open>
  The server's answer when an exception is caught by nothing in the application:
  \<^verbatim>\<open>500 Internal Server Error\<close>, as plain text.
\<close>

definition internal_server_error :: response where
  "internal_server_error =
     \<lparr>status = 500, media_type = ''text/plain'', headers = [],
      body = Text_body ''Internal Server Error''\<rparr>"

text \<open>
  What FastAPI makes of a handler's result: a raised \<^verbatim>\<open>HTTPException\<close> becomes the JSON
  response \<^verbatim>\<open>{"detail": detail}\<close> with its status code; a returned value is rendered and
  becomes a JSON response with status 200; a returned response object is sent as it is.
  Another exception raised by the handler, and an exception raised while the returned
  value is rendered (after the handler has returned, so outside its \<^verbatim>\<open>try\<close>), are caught by
  nothing: the caller gets the server's 500. The middleware has no \<^verbatim>\<open>try\<close> either, so
  such an exception passes it unchanged.
\<close>

fun fastapi_route :: "env \<Rightarrow> (py_exc + returned) \<times> backend_call list \<Rightarrow> py_exc + outcome" where
  "fastapi_route e (Inl (HTTPException code detail), cs) =
     Inr \<lparr>resp = JSONResponse code (JObj [(''detail'', JStr detail)]), calls = cs\<rparr>"
| "fastapi_route e (Inl ex, cs) = Inr \<lparr>resp = internal_server_error, calls = cs\<rparr>"
| "fastapi_route e (Inr (Value j), cs) =
     (case render_exc e j of
        None \<Rightarrow> Inr \<lparr>resp = JSONResponse 200 j, calls = cs\<rparr>
      | Some ex \<Rightarrow> Inr \<lparr>resp = internal_server_error, calls = cs\<rparr>)"
| "fastapi_route e (Inr (Response r), cs) = Inr \<lparr>resp = r, calls = cs\<rparr>"

text \<open>The routes the module registers, by method and path; everything else is FastAPI's.\<close>

definition router :: "config \<Rightarrow> env \<Rightarrow> request \<Rightarrow> py_exc + outcome" where
  "router cfg e request =
     (if http_method request = ''GET'' \<and> path request = ''/'' then fastapi_route e (root, [])
      else if http_method request = ''GET'' \<and> path request = ''/health''
        then fastapi_route e (health, [])
      else if http_method request = ''GET'' \<and> path request = ''/v1/models''
        then fastapi_route e (list_models cfg e)
      else if http_method request = ''POST'' \<and> path request = ''/v1/chat/completions''
        then fastapi_route e (chat_completions cfg e request)
      else if http_method request = ''POST'' \<and> path request = ''/v1/completions''
        then fastapi_route e (completions cfg e request)
      else Inr \<lparr>resp = fastapi_builtin e request, calls = []\<rparr>)"

text \<open>The middleware is registered for every HTTP request: it wraps the router.\<close>

definition app :: "config \<Rightarrow> env \<Rightarrow> request \<Rightarrow> py_exc + outcome" where
  "app cfg e request = auth_middleware cfg request (router cfg e)"

section \<open>The relay the two generation handlers have in common\<close>

text \<open>
  The text of \<^verbatim>\<open>chat_completions\<close> and of \<^verbatim>\<open>completions\<close> with the endpoint path as a
  parameter. It is not a function of the module: it is what the two handlers are
  compared with.
\<close>

definition relay_stream_call ::
  "config \<Rightarrow> string \<Rightarrow> json \<Rightarrow> (string \<times> string) list \<Rightarrow> backend_call" where
  "relay_stream_call cfg endpoint nim_request hs =
     \<lparr>client_method = Client_stream, url = NVIDIA_NIM_BASE_URL cfg @ endpoint,
      call_headers = hs, payload = Some nim_request, timeout = 60\<rparr>"

definition relay_generate_stream ::
  "config \<Rightarrow> env \<Rightarrow> string \<Rightarrow> client_state \<Rightarrow> json \<Rightarrow> (string \<times> string) list \<Rightarrow>
   body \<times> backend_call list" where
  "relay_generate_stream cfg e endpoint client nim_request hs =
     (case client_send e client (relay_stream_call cfg endpoint nim_request hs) of
        (Inl ex, cs) \<Rightarrow> (Stream_body [] (Some ex), cs)
      | (Inr response, cs) \<Rightarrow>
          (if status_code response \<noteq> 200 then
             (case aread_decoded response of
                Inl ex \<Rightarrow> Stream_body [] (Some ex)
              | Inr error_text \<Rightarrow> Stream_body [error_event e error_text] None)
           else Stream_body (forward_lines (lines response)) (lines_exc response),
           cs))"

definition relay_post_call ::
  "config \<Rightarrow> string \<Rightarrow> json \<Rightarrow> (string \<times> string) list \<Rightarrow> backend_call" where
  "relay_post_call cfg endpoint nim_request hs =
     \<lparr>client_method = Client_post, url = NVIDIA_NIM_BASE_URL cfg @ endpoint,
      call_headers = hs, payload = Some nim_request, timeout = 60\<rparr>"

definition relay_try ::
  "config \<Rightarrow> env \<Rightarrow> string \<Rightarrow> request \<Rightarrow> (py_exc + returned) \<times> backend_call list" where
  "relay_try cfg e endpoint request =
     (case request_json request of
        Inl ex \<Rightarrow> (Inl ex, [])
      | Inr request_data \<Rightarrow>
          (case translated translate_request request_data of
             Inl ex \<Rightarrow> (Inl ex, [])
           | Inr nim_request \<Rightarrow>
               (case py_get request_data ''stream'' (JBool False) of
                  Inl ex \<Rightarrow> (Inl ex, [])
                | Inr is_stream \<Rightarrow>
                    if truthy is_stream then
                      (case relay_generate_stream cfg e endpoint Client_closed nim_request
                              (nim_headers cfg [(''Content-Type'', ''application/json'')]) of
                         (content, cs) \<Rightarrow>
                           (Inr (Response (StreamingResponse content ''text/plain''
                                   [(''Cache-Control'', ''no-cache''), (''Connection'', ''keep-alive'')])),
                            cs))
                    else
                      (case client_send e Client_open
                              (relay_post_call cfg endpoint nim_request
                                 (nim_headers cfg [(''Content-Type'', ''application/json'')])) of
                         (Inl ex, cs) \<Rightarrow> (Inl ex, cs)
                       | (Inr response, cs) \<Rightarrow>
                           (if status_code response = 200 then
                              (case json_result response of
                                 Inl ex \<Rightarrow> Inl ex
                               | Inr nim_response \<Rightarrow>
                                   (case translated translate_response nim_response of
                                      Inl ex \<Rightarrow> Inl ex
                                    | Inr openai_response \<Rightarrow> Inr (Value openai_response)))
                            else Inl (HTTPException (status_code response) (response_text response)),
                            cs)))))"

definition relay ::
  "config \<Rightarrow> env \<Rightarrow> string \<Rightarrow> request \<Rightarrow> (py_exc + returned) \<times> backend_call list" where
  "relay cfg e endpoint request =
     (case relay_try cfg e endpoint request of
        (Inl ex, cs) \<Rightarrow>
          (if ex = JSONDecodeError then Inl (HTTPException 400 ''Invalid JSON in request body'')
           else Inl (HTTPException 500 (exc_str e ex)), cs)
      | (Inr r, cs) \<Rightarrow> (Inr r, cs))"

section \<open>Concrete inputs\<close>

text \<open>
  The configuration the module has when no environment variable is set, and an
  environment around a given backend. The library functions and FastAPI's answer are
  placeholders in it: the text they give is not what any statement below is about.
\<close>

definition default_config :: config where
  "default_config =
     \<lparr>NVIDIA_NIM_BASE_URL = ''http://localhost:8000'', NVIDIA_NIM_API_KEY = [],
      PROXY_API_KEY = ''your-proxy-api-key''\<rparr>"

fun placeholder_str :: "py_exc \<Rightarrow> string" where
  "placeholder_str (HTTPException code detail) = detail"
| "placeholder_str (OtherError description) = description"
| "placeholder_str ex = ''error''"

definition placeholder_dumps :: "json \<Rightarrow> string" where
  "placeholder_dumps j = ''{}''"

definition env_of :: "(backend_call \<Rightarrow> py_exc + backend_response) \<Rightarrow> env" where
  "env_of b =
     \<lparr>backend = b, exc_str = placeholder_str, json_dumps = placeholder_dumps,
      encode_exc = (\<lambda>j. None),
      fastapi_builtin = (\<lambda>request. JSONResponse 404 (JObj [(''detail'', JStr ''Not Found'')]))\<rparr>"

text \<open>A request that carries the configured key of \<open>default_config\<close>.\<close>

definition keyed_request :: "string \<Rightarrow> string \<Rightarrow> py_exc + json \<Rightarrow> request" where
  "keyed_request m p j =
     \<lparr>http_method = m, path = p, authorization = Some ''Bearer your-proxy-api-key'', request_json = j\<rparr>"

text \<open>Backend responses: the views of one body each.\<close>

definition rate_limited :: backend_response where
  "rate_limited =
     \<lparr>status_code = 429, response_text = ''rate limited'', json_result = Inl JSONDecodeError,
      aread_decoded = Inr ''rate limited'', lines = [''rate limited''], lines_exc = None\<rparr>"

definition ok_42 :: backend_response where
  "ok_42 =
     \<lparr>status_code = 200, response_text = ''42'', json_result = Inr (JInt 42),
      aread_decoded = Inr ''42'', lines = [''42''], lines_exc = None\<rparr>"


definition ok_id_x :: backend_response where
  \<open>ok_id_x =
     \<lparr>status_code = 200, response_text = ''{"id":"x"}'',
      json_result = Inr (JObj [(''id'', JStr ''x'')]),
      aread_decoded = Inr ''{"id":"x"}'', lines = [''{"id":"x"}''], lines_exc = None\<rparr>\<close>

definition ok_three_events :: backend_response where
  \<open>ok_three_events =
     \<lparr>status_code = 200,
      response_text = ''data: {"a":1}'' @ [CHR 0x0A, CHR 0x0A] @ ''data: {"a":2}'' @
                      [CHR 0x0A, CHR 0x0A] @ ''data: [DONE]'' @ [CHR 0x0A, CHR 0x0A],
      json_result = Inl JSONDecodeError,
      aread_decoded = Inr (''data: {"a":1}'' @ [CHR 0x0A, CHR 0x0A] @ ''data: {"a":2}'' @
                           [CHR 0x0A, CHR 0x0A] @ ''data: [DONE]'' @ [CHR 0x0A, CHR 0x0A]),
      lines = [''data: {"a":1}'', [], ''data: {"a":2}'', [], ''data: [DONE]'', []],
      lines_exc = None\<rparr>\<close>

section \<open>Facts about the embedded functions\<close>

lemma forward_lines_eq:
  "forward_lines ls = map (\<lambda>c. c @ [CHR 0x0A]) (filter (\<lambda>c. c \<noteq> []) ls)"
  by (induction ls) auto

lemma split_from_startswith:
  "sep \<noteq> [] \<Longrightarrow> startswith s sep \<Longrightarrow>
   split_from sep [] s = [] # split_from sep [] (drop (length sep) s)"
  by (cases s; cases sep) (auto simp: drop_Cons')

lemma split_from_nonempty: "split_from sep seg s \<noteq> []"
  by (induction sep seg s rule: split_from.induct) auto

lemma authenticate_request_returns: "\<exists>ok. authenticate_request cfg request = Inr ok"
proof (cases "authorization request")
  case None
  then show ?thesis by (auto simp: authenticate_request_def)
next
  case (Some h)
  show ?thesis
  proof (cases "h = [] \<or> \<not> startswith h ''Bearer ''")
    case True
    with Some show ?thesis by (auto simp: authenticate_request_def)
  next
    case False
    then have "split_from ''Bearer '' [] h = [] # split_from ''Bearer '' [] (drop (length ''Bearer '') h)"
      by (intro split_from_startswith) auto
    moreover have "split_from ''Bearer '' [] (drop (length ''Bearer '') h) \<noteq> []"
      by (rule split_from_nonempty)
    ultimately have "1 < length (split_from ''Bearer '' [] h)"
      by (cases "split_from ''Bearer '' [] (drop (length ''Bearer '') h)") auto
    with Some False show ?thesis
      by (simp add: authenticate_request_def py_split_def py_index_def)
  qed
qed

lemma authenticate_request_path [simp]:
  "authenticate_request cfg (request\<lparr>path := p\<rparr>) = authenticate_request cfg request"
  by (simp add: authenticate_request_def)

lemma chat_completions_relay:
  "chat_completions cfg e request = relay cfg e ''/v1/chat/completions'' request"
  unfolding chat_completions_def relay_def chat_completions_try_def relay_try_def
    chat_completions_generate_stream_def relay_generate_stream_def
    chat_completions_stream_call_def relay_stream_call_def
    chat_completions_post_call_def relay_post_call_def
  by (rule refl)

lemma completions_relay:
  "completions cfg e request = relay cfg e ''/v1/completions'' request"
  unfolding completions_def relay_def completions_try_def relay_try_def
    completions_generate_stream_def relay_generate_stream_def
    completions_stream_call_def relay_stream_call_def
    completions_post_call_def relay_post_call_def
  by (rule refl)

lemma translated_copyable:
  "copyable doc \<Longrightarrow> translated translate_request doc = Inr doc"
  "copyable doc \<Longrightarrow> translated translate_response doc = Inr doc"
  by (cases doc; simp add: translated_def translate_request_def translate_response_def py_copy_def)+


lemma py_get_copyable: "py_get doc key dflt = Inr v \<Longrightarrow> copyable doc"
  by (cases doc) auto

lemma app_passes:
  "authenticate_request cfg request = Inr True \<Longrightarrow> app cfg e request = router cfg e request"
  by (simp add: app_def auth_middleware_def)

lemma router_generation:
  assumes "http_method request = ''POST''"
    and "path request = ''/v1/chat/completions'' \<or> path request = ''/v1/completions''"
  shows "router cfg e request = fastapi_route e (relay cfg e (path request) request)"
  using assms by (auto simp: router_def chat_completions_relay completions_relay)

lemma relay_invalid_json:
  "request_json request = Inl JSONDecodeError \<Longrightarrow>
   relay cfg e endpoint request = (Inl (HTTPException 400 ''Invalid JSON in request body''), [])"
  by (simp add: relay_def relay_try_def)

lemma relay_other_exception:
  "request_json request = Inl ex \<Longrightarrow> ex \<noteq> JSONDecodeError \<Longrightarrow>
   relay cfg e endpoint request = (Inl (HTTPException 500 (exc_str e ex)), [])"
  by (simp add: relay_def relay_try_def)

lemma relay_streaming:
  assumes "request_json request = Inr request_data"
    and "py_get request_data ''stream'' (JBool False) = Inr is_stream"
    and "truthy is_stream"
  shows "relay cfg e endpoint request =
     (Inr (Response (StreamingResponse
        (Stream_body [] (Some (RuntimeError ''Cannot send a request, as the client has been closed.'')))
        ''text/plain'' [(''Cache-Control'', ''no-cache''), (''Connection'', ''keep-alive'')])),
      [])"
  using assms py_get_copyable[OF assms(2)]
  by (simp add: relay_def relay_try_def translated_copyable relay_generate_stream_def
      client_send_def)


lemma relay_fst:
  "fst (relay cfg e endpoint request) =
     (case fst (relay_try cfg e endpoint request) of
        Inl ex \<Rightarrow>
          if ex = JSONDecodeError then Inl (HTTPException 400 ''Invalid JSON in request body'')
          else Inl (HTTPException 500 (exc_str e ex))
      | Inr r \<Rightarrow> Inr r)"
  by (cases "relay_try cfg e endpoint request") (auto simp: relay_def split: sum.splits)

lemma relay_snd: "snd (relay cfg e endpoint request) = snd (relay_try cfg e endpoint request)"
  by (cases "relay_try cfg e endpoint request") (auto simp: relay_def split: sum.splits)

lemma relay_returns:
  "(\<exists>code detail. fst (relay cfg e endpoint request) = Inl (HTTPException code detail)) \<or>
   (\<exists>r. fst (relay cfg e endpoint request) = Inr r)"
  by (simp add: relay_fst split: sum.splits)

lemma relay_path [simp]:
  "relay cfg e endpoint (request\<lparr>path := p\<rparr>) = relay cfg e endpoint request"
  by (simp add: relay_def relay_try_def)

lemma relay_endpoints:
  assumes "\<forall>c. backend e (c\<lparr>url := NVIDIA_NIM_BASE_URL cfg @ ep1\<rparr>) =
               backend e (c\<lparr>url := NVIDIA_NIM_BASE_URL cfg @ ep2\<rparr>)"
  shows "fst (relay cfg e ep1 request) = fst (relay cfg e ep2 request)"
    and "map (\<lambda>c. c\<lparr>url := []\<rparr>) (snd (relay cfg e ep1 request)) =
         map (\<lambda>c. c\<lparr>url := []\<rparr>) (snd (relay cfg e ep2 request))"
    and "\<forall>c \<in> set (snd (relay cfg e ep1 request)). url c = NVIDIA_NIM_BASE_URL cfg @ ep1"
    and "\<forall>c \<in> set (snd (relay cfg e ep2 request)). url c = NVIDIA_NIM_BASE_URL cfg @ ep2"
proof -
  have p: "backend e (relay_post_call cfg ep1 n hs) = backend e (relay_post_call cfg ep2 n hs)" for n hs
    using assms[rule_format, of "relay_post_call cfg ep1 n hs"]
    by (simp add: relay_post_call_def)
  have t: "fst (relay_try cfg e ep1 request) = fst (relay_try cfg e ep2 request)"
    by (simp add: relay_try_def relay_generate_stream_def client_send_def p split: sum.splits)
  show "fst (relay cfg e ep1 request) = fst (relay cfg e ep2 request)"
    by (simp only: relay_fst t)
  show "map (\<lambda>c. c\<lparr>url := []\<rparr>) (snd (relay cfg e ep1 request)) =
         map (\<lambda>c. c\<lparr>url := []\<rparr>) (snd (relay cfg e ep2 request))"
    unfolding relay_snd
    by (simp add: relay_try_def relay_generate_stream_def client_send_def relay_post_call_def
        split: sum.splits)
  show "\<forall>c \<in> set (snd (relay cfg e ep1 request)). url c = NVIDIA_NIM_BASE_URL cfg @ ep1"
    unfolding relay_snd
    by (simp add: relay_try_def relay_generate_stream_def client_send_def relay_post_call_def
        split: sum.splits)
  show "\<forall>c \<in> set (snd (relay cfg e ep2 request)). url c = NVIDIA_NIM_BASE_URL cfg @ ep2"
    unfolding relay_snd
    by (simp add: relay_try_def relay_generate_stream_def client_send_def relay_post_call_def
        split: sum.splits)
qed

lemma fastapi_route_responds:
  "\<exists>r. \<forall>cs. fastapi_route e (x, cs) = Inr \<lparr>resp = r, calls = cs\<rparr>"
proof (cases x)
  case (Inl ex)
  then show ?thesis by (cases ex) auto
next
  case (Inr v)
  then show ?thesis by (cases v; cases "render_exc e (case v of Value j \<Rightarrow> j | _ \<Rightarrow> JNull)") auto
qed

lemma keyed_request_authenticated:
  "authenticate_request default_config (keyed_request m p j) = Inr True"
  by (simp add: authenticate_request_def keyed_request_def default_config_def py_split_def
      py_index_def)

lemma app_generation:
  assumes "http_method request = ''POST''"
    and "path request = ''/v1/chat/completions'' \<or> path request = ''/v1/completions''"
    and "authenticate_request cfg request = Inr True"
  shows "app cfg e request = fastapi_route e (relay cfg e (path request) request)"
  using assms by (simp add: app_passes router_generation)

lemma json_decode_error_answered_400:
  assumes "http_method request = ''POST''"
    and "path request = ''/v1/chat/completions'' \<or> path request = ''/v1/completions''"
    and "authenticate_request cfg request = Inr True"
    and "request_json request = Inl JSONDecodeError"
  shows "app cfg e request =
     Inr \<lparr>resp = \<lparr>status = 400, media_type = ''application/json'', headers = [],
                  body = Json_body (JObj [(''detail'', JStr ''Invalid JSON in request body'')])\<rparr>,
          calls = []\<rparr>"
  using assms by (simp add: app_generation relay_invalid_json JSONResponse_def)

lemma py_copy_copyable:
  assumes "a < length st" and "copyable (st ! a)"
  shows "py_copy st a = Inr (length st, st @ [st ! a])"
  using assms by (cases "st ! a") (simp_all add: py_copy_def)

lemma gate_rejects:
  assumes "path request \<notin> set unauthenticated_paths"
    and "authorization request = None \<or>
         (\<exists>h. authorization request = Some h \<and> \<not> startswith h ''Bearer '')"
  shows "auth_middleware cfg request call_next =
     Inr \<lparr>resp = JSONResponse 401 invalid_api_key, calls = []\<rparr>"
  using assms by (auto simp: auth_middleware_def authenticate_request_def)

lemma generate_stream_open_client:
  assumes "backend e (chat_completions_stream_call cfg nim_request hs) = Inr response"
  shows "chat_completions_generate_stream cfg e Client_open nim_request hs =
     (if status_code response \<noteq> 200 then
        (case aread_decoded response of
           Inl ex \<Rightarrow> Stream_body [] (Some ex)
         | Inr error_text \<Rightarrow> Stream_body [error_event e error_text] None)
      else Stream_body
             (map (\<lambda>line. line @ [CHR 0x0A]) (filter (\<lambda>line. line \<noteq> []) (lines response)))
             (lines_exc response),
      [chat_completions_stream_call cfg nim_request hs])"
  using assms
  by (simp add: chat_completions_generate_stream_def client_send_def forward_lines_eq)

section \<open>The claims\<close>

text \<open>
  Claim C1 says that a request to a path outside the allow-list whose bearer token is not
  string-equal to the configured credential is answered 401 and never reaches a route
  handler. \<^verbatim>\<open>authenticate_request\<close> compares the credential with element 1 of
  \<^verbatim>\<open>auth_header.split("Bearer ")\<close>, which is the token only up to its first occurrence of
  \<^verbatim>\<open>"Bearer "\<close>. With the credential \<^verbatim>\<open>your-proxy-api-key\<close>, the header
  \<^verbatim>\<open>Bearer your-proxy-api-keyBearer x\<close> carries another token, and the request passes the gate:
  \<^verbatim>\<open>list_models\<close> runs, calls the backend, and the answer is 200.
\<close>

theorem split_token_passes_gate:
  "drop 7 ''Bearer your-proxy-api-keyBearer x'' \<noteq> PROXY_API_KEY default_config \<and>
   app default_config (env_of (\<lambda>c. Inr ok_id_x))
     \<lparr>http_method = ''GET'', path = ''/v1/models'',
      authorization = Some ''Bearer your-proxy-api-keyBearer x'',
      request_json = Inl JSONDecodeError\<rparr> =
   Inr \<lparr>resp = JSONResponse 200 (JObj [(''id'', JStr ''x'')]),
        calls = [list_models_call default_config]\<rparr>"
  by (simp add: app_def auth_middleware_def authenticate_request_def py_split_def py_index_def
      unauthenticated_paths_def default_config_def router_def list_models_def
      list_models_try_def env_of_def ok_id_x_def client_send_def render_exc_def)

text \<open>
  Claim C2 says that on the non-streaming path a backend status other than 200 is the
  status of the proxy's answer, with the backend's body text as detail. The handlers raise
  \<^verbatim>\<open>HTTPException(status_code=response.status_code, detail=response.text)\<close> inside their
  \<^verbatim>\<open>try\<close>, and \<^verbatim>\<open>except Exception\<close> catches it: for a backend that answers 429 with body
  \<^verbatim>\<open>rate limited\<close>, \<^verbatim>\<open>chat_completions\<close> answers 500 with detail \<^verbatim>\<open>str(e)\<close> of that exception,
  and \<^verbatim>\<open>list_models\<close> answers 500 with detail \<^verbatim>\<open>Failed to fetch models\<close>, whatever the
  library functions of the environment \<open>e\<close> are.
\<close>

theorem backend_status_answered_500:
  "app default_config (e\<lparr>backend := \<lambda>c. Inr rate_limited\<rparr>)
     (keyed_request ''POST'' ''/v1/chat/completions'' (Inr (JObj [(''model'', JStr ''m'')]))) =
   Inr \<lparr>resp = JSONResponse 500
                 (JObj [(''detail'', JStr (exc_str e (HTTPException 429 ''rate limited'')))]),
        calls = [chat_completions_post_call default_config (JObj [(''model'', JStr ''m'')])
                   [(''Content-Type'', ''application/json'')]]\<rparr> \<and>
   app default_config (e\<lparr>backend := \<lambda>c. Inr rate_limited\<rparr>)
     (keyed_request ''GET'' ''/v1/models'' (Inl JSONDecodeError)) =
   Inr \<lparr>resp = JSONResponse 500 (JObj [(''detail'', JStr ''Failed to fetch models'')]),
        calls = [list_models_call default_config]\<rparr>"
proof -
  have a: "app default_config e' (keyed_request m p j) = router default_config e' (keyed_request m p j)"
    for e' m p j
    by (rule app_passes) (rule keyed_request_authenticated)
  show ?thesis
    unfolding a
    by (simp add: router_def keyed_request_def chat_completions_def chat_completions_try_def
        translated_copyable nim_headers_def default_config_def rate_limited_def
        list_models_def list_models_try_def chat_completions_post_call_def client_send_def)
qed

text \<open>
  Claim C3 says that for a streaming request for which the backend answers 200 and emits
  lines, the caller receives those lines as chunks, in order, each followed by a newline.
  The handlers return the \<^verbatim>\<open>StreamingResponse\<close> from inside
  \<^verbatim>\<open>async with httpx.AsyncClient() as client\<close>, so the client is closed before the generator
  first runs: \<^verbatim>\<open>client.stream\<close> raises \<^verbatim>\<open>RuntimeError\<close>, the backend is never asked, and the
  caller gets the status 200 and a stream without a chunk. Here the backend is ready to
  answer 200 with the lines \<^verbatim>\<open>data: {"a":1}\<close>, \<^verbatim>\<open>data: {"a":2}\<close> and \<^verbatim>\<open>data: [DONE]\<close>,
  whatever the library functions of the environment \<open>e\<close> are.
\<close>

theorem streaming_request_gets_no_chunk:
  "app default_config (e\<lparr>backend := \<lambda>c. Inr ok_three_events\<rparr>)
     (keyed_request ''POST'' ''/v1/chat/completions'' (Inr (JObj [(''stream'', JBool True)]))) =
   Inr \<lparr>resp = \<lparr>status = 200, media_type = ''text/plain'',
                headers = [(''Cache-Control'', ''no-cache''), (''Connection'', ''keep-alive'')],
                body = Stream_body []
                         (Some (RuntimeError ''Cannot send a request, as the client has been closed.''))\<rparr>,
        calls = []\<rparr>"
proof -
  have "relay default_config (e\<lparr>backend := \<lambda>c. Inr ok_three_events\<rparr>) ''/v1/chat/completions''
          (keyed_request ''POST'' ''/v1/chat/completions'' (Inr (JObj [(''stream'', JBool True)]))) =
     (Inr (Response (StreamingResponse
        (Stream_body [] (Some (RuntimeError ''Cannot send a request, as the client has been closed.'')))
        ''text/plain'' [(''Cache-Control'', ''no-cache''), (''Connection'', ''keep-alive'')])),
      [])"
    by (rule relay_streaming [where request_data = "JObj [(''stream'', JBool True)]"
          and is_stream = "JBool True"])
       (simp_all add: keyed_request_def)
  then show ?thesis
    using app_generation [of
        "keyed_request ''POST'' ''/v1/chat/completions'' (Inr (JObj [(''stream'', JBool True)]))"
        default_config "e\<lparr>backend := \<lambda>c. Inr ok_three_events\<rparr>"]
      keyed_request_authenticated [of "''POST''" "''/v1/chat/completions''"
        "Inr (JObj [(''stream'', JBool True)])"]
    by (simp add: keyed_request_def StreamingResponse_def)
qed

text \<open>
  Claim C4 says that a request to a generation endpoint whose body cannot be parsed as JSON
  is answered 400, with no call to the backend. The 400 clause is
  \<^verbatim>\<open>except json.JSONDecodeError\<close>. A body that is not text in UTF-8, such as the bytes
  \<^verbatim>\<open>{"a": "\xff"}\<close>, makes \<^verbatim>\<open>await request.json()\<close> raise \<^verbatim>\<open>UnicodeDecodeError\<close>, and an integer
  literal beyond the digit limit makes it raise \<^verbatim>\<open>ValueError\<close>; neither is a
  \<^verbatim>\<open>JSONDecodeError\<close>, both reach \<^verbatim>\<open>except Exception\<close>, and the answer is 500 with detail
  \<^verbatim>\<open>str(e)\<close>. No backend call is made.
\<close>

theorem unparsable_body_answered_500:
  "app default_config e
     (keyed_request ''POST'' ''/v1/chat/completions'' (Inl UnicodeDecodeError)) =
   Inr \<lparr>resp = JSONResponse 500 (JObj [(''detail'', JStr (exc_str e UnicodeDecodeError))]),
        calls = []\<rparr> \<and>
   app default_config e
     (keyed_request ''POST'' ''/v1/completions'' (Inl ValueError)) =
   Inr \<lparr>resp = JSONResponse 500 (JObj [(''detail'', JStr (exc_str e ValueError))]),
        calls = []\<rparr>"
proof -
  have a: "app default_config e (keyed_request ''POST'' p j) =
           fastapi_route e (relay default_config e p (keyed_request ''POST'' p j))"
    if "p = ''/v1/chat/completions'' \<or> p = ''/v1/completions''" for p j
    using that app_generation [of "keyed_request ''POST'' p j" default_config e]
      keyed_request_authenticated [of "''POST''" p j]
    by (simp add: keyed_request_def)
  have r: "relay default_config e p (keyed_request ''POST'' p (Inl ex)) =
           (Inl (HTTPException 500 (exc_str e ex)), [])"
    if "ex \<noteq> JSONDecodeError" for p ex
    using that by (intro relay_other_exception) (simp_all add: keyed_request_def)
  show ?thesis by (simp add: a r)
qed




text \<open>
  Claim C6 says that for a streaming request for which the backend's status is not 200, the
  caller's stream is one \<^verbatim>\<open>data: {"error": ...}\<close> event with the backend's error body,
  followed by a blank line. The defect is the one of C3: the generator runs on a closed
  client, \<^verbatim>\<open>client.stream\<close> raises \<^verbatim>\<open>RuntimeError\<close> before any status is known, and no event
  is sent. Here the backend is ready to answer 429 with the body \<^verbatim>\<open>rate limited\<close>.
\<close>

theorem streaming_error_gets_no_event:
  "app default_config (e\<lparr>backend := \<lambda>c. Inr rate_limited\<rparr>)
     (keyed_request ''POST'' ''/v1/completions'' (Inr (JObj [(''stream'', JBool True)]))) =
   Inr \<lparr>resp = \<lparr>status = 200, media_type = ''text/plain'',
                headers = [(''Cache-Control'', ''no-cache''), (''Connection'', ''keep-alive'')],
                body = Stream_body []
                         (Some (RuntimeError ''Cannot send a request, as the client has been closed.''))\<rparr>,
        calls = []\<rparr>"
proof -
  have "relay default_config (e\<lparr>backend := \<lambda>c. Inr rate_limited\<rparr>) ''/v1/completions''
          (keyed_request ''POST'' ''/v1/completions'' (Inr (JObj [(''stream'', JBool True)]))) =
     (Inr (Response (StreamingResponse
        (Stream_body [] (Some (RuntimeError ''Cannot send a request, as the client has been closed.'')))
        ''text/plain'' [(''Cache-Control'', ''no-cache''), (''Connection'', ''keep-alive'')])),
      [])"
    by (rule relay_streaming [where request_data = "JObj [(''stream'', JBool True)]"
          and is_stream = "JBool True"])
       (simp_all add: keyed_request_def)
  then show ?thesis
    using app_generation [of
        "keyed_request ''POST'' ''/v1/completions'' (Inr (JObj [(''stream'', JBool True)]))"
        default_config "e\<lparr>backend := \<lambda>c. Inr rate_limited\<rparr>"]
      keyed_request_authenticated [of "''POST''" "''/v1/completions''"
        "Inr (JObj [(''stream'', JBool True)])"]
    by (simp add: keyed_request_def StreamingResponse_def)
qed

text \<open>
  Claim C7 says that for every JSON document \<open>x\<close> both translators return a copy equal to
  \<open>x\<close>. A JSON number is a JSON document and has no \<^verbatim>\<open>copy\<close> method.
\<close>

theorem translate_scalar_raises:
  "translate_request [JInt 42] 0 = Inl AttributeError"
  by (simp add: translate_request_def py_copy_def)

text \<open>
  Claim C7 as amended: for every JSON object or array \<open>x\<close> (an object at address \<open>a\<close> of
  the store), \<open>translate_request\<close> and \<open>translate_response\<close> return a new object: its
  address differs from that of \<open>x\<close>, its items are those of \<open>x\<close>, the objects that were in
  the store are unchanged, and writing to the new object leaves \<open>x\<close> as it was. Applying a
  translator to its own result gives again an object with the same items, and by value
  each translator is the identity on \<open>x\<close>.
\<close>

theorem translators_copy:
  assumes "a < length st" and "copyable (st ! a)"
  shows "\<exists>a1 st1 a2 st2.
     translate_request st a = Inr (a1, st1) \<and> translate_response st a = Inr (a1, st1) \<and>
     a1 \<noteq> a \<and> a1 < length st1 \<and> st1 ! a1 = st ! a \<and> take (length st) st1 = st \<and>
     (\<forall>v. (st1[a1 := v]) ! a = st ! a) \<and>
     translate_request st1 a1 = Inr (a2, st2) \<and> translate_response st1 a1 = Inr (a2, st2) \<and>
     a2 < length st2 \<and> st2 ! a2 = st1 ! a1 \<and>
     translated translate_request (st ! a) = Inr (st ! a) \<and>
     translated translate_response (st ! a) = Inr (st ! a)"
proof -
  let ?st1 = "st @ [st ! a]"
  have first: "py_copy st a = Inr (length st, ?st1)"
    using assms by (rule py_copy_copyable)
  have "length st < length ?st1" and "copyable (?st1 ! length st)"
    using assms by simp_all
  then have second: "py_copy ?st1 (length st) = Inr (length ?st1, ?st1 @ [?st1 ! length st])"
    by (rule py_copy_copyable)
  have frame: "(?st1[length st := v]) ! a = st ! a" for v
    using assms(1) by (simp add: nth_append)
  show ?thesis
    using first second frame assms
    by (simp add: translate_request_def translate_response_def translated_copyable nth_append)
qed

theorem translators_copy_witness:
  "\<exists>a1 st1 a2 st2.
     translate_request [JObj [(''model'', JStr ''m'')]] 0 = Inr (a1, st1) \<and>
     translate_response [JObj [(''model'', JStr ''m'')]] 0 = Inr (a1, st1) \<and>
     a1 \<noteq> 0 \<and> a1 < length st1 \<and> st1 ! a1 = JObj [(''model'', JStr ''m'')] \<and>
     take 1 st1 = [JObj [(''model'', JStr ''m'')]] \<and>
     (\<forall>v. (st1[a1 := v]) ! 0 = JObj [(''model'', JStr ''m'')]) \<and>
     translate_request st1 a1 = Inr (a2, st2) \<and> translate_response st1 a1 = Inr (a2, st2) \<and>
     a2 < length st2 \<and> st2 ! a2 = st1 ! a1 \<and>
     translated translate_request (JObj [(''model'', JStr ''m'')]) = Inr (JObj [(''model'', JStr ''m'')]) \<and>
     translated translate_response (JObj [(''model'', JStr ''m'')]) = Inr (JObj [(''model'', JStr ''m'')])"
  using translators_copy [of 0 "[JObj [(''model'', JStr ''m'')]]"] by simp



text \<open>
  Claim C9: any two rejections by the credential gate are the same response, whatever the
  two configured credentials, the two requests and the two environments: status 401 and the
  fixed body, in which neither the credential nor the presented token occurs, and no
  backend call.
\<close>

theorem rejection_is_fixed:
  assumes "path request1 \<notin> {''/'', ''/health'', ''/docs'', ''/openapi.json''}"
    and "path request2 \<notin> {''/'', ''/health'', ''/docs'', ''/openapi.json''}"
    and "authenticate_request cfg1 request1 = Inr False"
    and "authenticate_request cfg2 request2 = Inr False"
  shows "app cfg1 e1 request1 = app cfg2 e2 request2 \<and>
     app cfg1 e1 request1 =
       Inr \<lparr>resp = \<lparr>status = 401, media_type = ''application/json'', headers = [],
                    body = Json_body
                      (JObj [(''error'', JObj [(''message'', JStr ''Invalid API key''),
                                               (''type'', JStr ''invalid_request_error'')])])\<rparr>,
            calls = []\<rparr>"
  using assms
  by (simp add: app_def auth_middleware_def unauthenticated_paths_def JSONResponse_def
      invalid_api_key_def)

theorem rejection_is_fixed_witness:
  "app default_config (env_of (\<lambda>c. Inr ok_id_x))
     \<lparr>http_method = ''GET'', path = ''/v1/models'', authorization = None, request_json = Inl JSONDecodeError\<rparr> =
   app (default_config\<lparr>PROXY_API_KEY := ''another-secret''\<rparr>) (env_of (\<lambda>c. Inr ok_42))
     \<lparr>http_method = ''POST'', path = ''/v1/completions'', authorization = Some ''Bearer your-proxy-api-key'',
      request_json = Inr (JObj [])\<rparr> \<and>
   app default_config (env_of (\<lambda>c. Inr ok_id_x))
     \<lparr>http_method = ''GET'', path = ''/v1/models'', authorization = None, request_json = Inl JSONDecodeError\<rparr> =
     Inr \<lparr>resp = \<lparr>status = 401, media_type = ''application/json'', headers = [],
                  body = Json_body
                    (JObj [(''error'', JObj [(''message'', JStr ''Invalid API key''),
                                             (''type'', JStr ''invalid_request_error'')])])\<rparr>,
          calls = []\<rparr>"
proof -
  have p1: "path \<lparr>http_method = ''GET'', path = ''/v1/models'', authorization = None,
                   request_json = Inl JSONDecodeError\<rparr>
              \<notin> {''/'', ''/health'', ''/docs'', ''/openapi.json''}"
    by simp
  have p2: "path \<lparr>http_method = ''POST'', path = ''/v1/completions'',
                   authorization = Some ''Bearer your-proxy-api-key'', request_json = Inr (JObj [])\<rparr>
              \<notin> {''/'', ''/health'', ''/docs'', ''/openapi.json''}"
    by simp
  have r1: "authenticate_request default_config
              \<lparr>http_method = ''GET'', path = ''/v1/models'', authorization = None,
               request_json = Inl JSONDecodeError\<rparr> = Inr False"
    by (simp add: authenticate_request_def)
  have r2: "authenticate_request (default_config\<lparr>PROXY_API_KEY := ''another-secret''\<rparr>)
              \<lparr>http_method = ''POST'', path = ''/v1/completions'',
               authorization = Some ''Bearer your-proxy-api-key'', request_json = Inr (JObj [])\<rparr> =
            Inr False"
    by (simp add: authenticate_request_def py_split_def py_index_def)
  show ?thesis
    by (rule rejection_is_fixed [OF p1 p2 r1 r2])
qed

text \<open>
  Claim C10: for an authenticated \<^verbatim>\<open>POST\<close> with the same body, sent once to
  \<^verbatim>\<open>/v1/chat/completions\<close> and once to \<^verbatim>\<open>/v1/completions\<close>, and a backend that behaves the
  same at the two URLs, the two responses are equal (status, media type, headers, and body:
  the JSON document or the streamed chunks), and the backend calls made are the same up
  to their URL, which is the base URL followed by the respective path.
\<close>

theorem generation_handlers_agree:
  assumes "http_method request = ''POST''"
    and "authenticate_request cfg request = Inr True"
    and "\<forall>c. backend e (c\<lparr>url := NVIDIA_NIM_BASE_URL cfg @ ''/v1/chat/completions''\<rparr>) =
             backend e (c\<lparr>url := NVIDIA_NIM_BASE_URL cfg @ ''/v1/completions''\<rparr>)"
  shows "\<exists>out1 out2.
     app cfg e (request\<lparr>path := ''/v1/chat/completions''\<rparr>) = Inr out1 \<and>
     app cfg e (request\<lparr>path := ''/v1/completions''\<rparr>) = Inr out2 \<and>
     resp out1 = resp out2 \<and>
     map (\<lambda>c. c\<lparr>url := []\<rparr>) (calls out1) = map (\<lambda>c. c\<lparr>url := []\<rparr>) (calls out2) \<and>
     (\<forall>c \<in> set (calls out1). url c = NVIDIA_NIM_BASE_URL cfg @ ''/v1/chat/completions'') \<and>
     (\<forall>c \<in> set (calls out2). url c = NVIDIA_NIM_BASE_URL cfg @ ''/v1/completions'')"
proof -
  let ?r1 = "relay cfg e ''/v1/chat/completions'' request"
  let ?r2 = "relay cfg e ''/v1/completions'' request"
  have a1: "app cfg e (request\<lparr>path := ''/v1/chat/completions''\<rparr>) = fastapi_route e ?r1"
    using assms(1,2) app_generation[of "request\<lparr>path := ''/v1/chat/completions''\<rparr>" cfg e] by simp
  have a2: "app cfg e (request\<lparr>path := ''/v1/completions''\<rparr>) = fastapi_route e ?r2"
    using assms(1,2) app_generation[of "request\<lparr>path := ''/v1/completions''\<rparr>" cfg e] by simp
  note ep = relay_endpoints[OF assms(3), of request]
  obtain x cs1 where r1: "?r1 = (x, cs1)" by (cases ?r1)
  obtain y cs2 where r2: "?r2 = (y, cs2)" by (cases ?r2)
  from ep(1) r1 r2 have xy: "y = x" by simp
  from fastapi_route_responds[of e x]
  obtain p where p: "fastapi_route e (x, cs1) = Inr \<lparr>resp = p, calls = cs1\<rparr>"
    and q: "fastapi_route e (x, cs2) = Inr \<lparr>resp = p, calls = cs2\<rparr>"
    by auto
  show ?thesis
    using a1 a2 r1 r2 xy p q ep(2,3,4) by simp
qed

theorem generation_handlers_agree_witness:
  "\<exists>out1 out2.
     app default_config (env_of (\<lambda>c. Inr ok_id_x))
       (keyed_request ''POST'' ''/v1/chat/completions'' (Inr (JObj [(''model'', JStr ''m'')]))) = Inr out1 \<and>
     app default_config (env_of (\<lambda>c. Inr ok_id_x))
       (keyed_request ''POST'' ''/v1/completions'' (Inr (JObj [(''model'', JStr ''m'')]))) = Inr out2 \<and>
     resp out1 = resp out2 \<and>
     map (\<lambda>c. c\<lparr>url := []\<rparr>) (calls out1) = map (\<lambda>c. c\<lparr>url := []\<rparr>) (calls out2) \<and>
     (\<forall>c \<in> set (calls out1). url c = ''http://localhost:8000/v1/chat/completions'') \<and>
     (\<forall>c \<in> set (calls out2). url c = ''http://localhost:8000/v1/completions'')"
  using generation_handlers_agree [of
      "keyed_request ''POST'' ''/'' (Inr (JObj [(''model'', JStr ''m'')]))"
      default_config "env_of (\<lambda>c. Inr ok_id_x)"]
    keyed_request_authenticated [of "''POST''" "''/''" "Inr (JObj [(''model'', JStr ''m'')])"]
  by (simp add: keyed_request_def default_config_def env_of_def)

end
